theory Spec2Isabelle
  imports Complex_Main "HOL-Library.Log_Nat"
begin

section \<open>JavaScript values used by \<open>src/js/script.js\<close>\<close>

text \<open>
  Strings are lists of code units. The only code unit beyond ASCII in the modelled code
  is U+00E8 (in the aria-label text), written \<open>CHR 0xE8\<close>.

  \<open>localStorage.getItem\<close> and \<open>dataset.theme\<close> give a string or null/undefined: a
  \<open>string option\<close>. A string is truthy exactly when it is not empty; null and undefined
  are falsy.
\<close>

definition js_truthy :: "string option \<Rightarrow> bool" where
  "js_truthy v = (case v of None \<Rightarrow> False | Some s \<Rightarrow> s \<noteq> [])"

subsection \<open>\<open>element.classList\<close>\<close>

text \<open>A \<open>DOMTokenList\<close> is an ordered set of tokens: \<open>add\<close> appends a token that is
  not there yet, \<open>remove\<close> deletes it, \<open>toggle(token, force)\<close> adds when \<open>force\<close> is
  true and removes otherwise.\<close>

definition classList_add :: "string \<Rightarrow> string list \<Rightarrow> string list" where
  "classList_add c cs = (if c \<in> set cs then cs else cs @ [c])"

definition classList_remove :: "string \<Rightarrow> string list \<Rightarrow> string list" where
  "classList_remove c cs = filter (\<lambda>x. x \<noteq> c) cs"

definition classList_toggle :: "string \<Rightarrow> bool \<Rightarrow> string list \<Rightarrow> string list" where
  "classList_toggle c force cs = (if force then classList_add c cs else classList_remove c cs)"

section \<open>\<open>class ThemeManager\<close>\<close>

subsection \<open>The \<open>themes\<close> table and property lookup on it\<close>

text \<open>
  \<open>this.themes\<close> is an object literal with three own properties. \<open>this.themes[k]\<close> is
  an ordinary property read: when \<open>k\<close> is not an own property the lookup continues in
  \<open>Object.prototype\<close>, whose members (ECMAScript 20.1.3 and Annex B.2.2) are functions, or
  for \<open>__proto__\<close> the prototype object itself. All of them are truthy and none has a
  \<open>label\<close> or an \<open>icon\<close> property.
\<close>

datatype js_value =
  ThemeEntry (entryName: string) (entryIcon: string) (entryLabel: string)
| Inherited

definition themes :: "(string \<times> js_value) list" where
  "themes =
    [(''light'', ThemeEntry ''Light'' ''bi-sun'' ''Light''),
     (''dark'', ThemeEntry ''Dark'' ''bi-moon'' ''Dark''),
     (''high-contrast'', ThemeEntry ''High Contrast'' ''bi-circle-half'' ''High Contrast'')]"

definition object_prototype_keys :: "string list" where
  "object_prototype_keys =
    [''constructor'', ''hasOwnProperty'', ''isPrototypeOf'', ''propertyIsEnumerable'',
     ''toLocaleString'', ''toString'', ''valueOf'', ''__proto__'',
     ''__defineGetter__'', ''__defineSetter__'', ''__lookupGetter__'', ''__lookupSetter__'']"

text \<open>\<open>this.themes[k]\<close>; \<open>None\<close> is \<open>undefined\<close>, every other result is truthy.\<close>

definition themes_get :: "string \<Rightarrow> js_value option" where
  "themes_get k =
    (case map_of themes k of
       Some d \<Rightarrow> Some d
     | None \<Rightarrow> (if k \<in> set object_prototype_keys then Some Inherited else None))"

text \<open>\<open>data.label\<close> and \<open>data.icon\<close>; \<open>None\<close> is \<open>undefined\<close>.\<close>

fun prop_label :: "js_value \<Rightarrow> string option" where
  "prop_label (ThemeEntry n i l) = Some l"
| "prop_label Inherited = None"

fun prop_icon :: "js_value \<Rightarrow> string option" where
  "prop_icon (ThemeEntry n i l) = Some i"
| "prop_icon Inherited = None"

text \<open>A value inside a template literal: \<open>undefined\<close> prints as the word.\<close>

definition template_str :: "string option \<Rightarrow> string" where
  "template_str v = (case v of None \<Rightarrow> ''undefined'' | Some s \<Rightarrow> s)"

text \<open>The closed set of variants of the specification.\<close>

definition supported_variants :: "string list" where
  "supported_variants = [''light'', ''dark'', ''high-contrast'']"

subsection \<open>The state the theme manager reads and writes\<close>

text \<open>
  The theme dropdown button \<open>#themeDropdown\<close>: its \<open>aria-label\<close> attribute, the
  \<open>className\<close> of its first \<open>i\<close> descendant and the \<open>textContent\<close> of its
  \<open>#current-theme\<close> descendant (\<open>None\<close> where that descendant does not exist).
\<close>

record theme_button =
  ariaLabel :: "string option"
  iconClassName :: "string option"
  currentThemeSpan :: "string option"

text \<open>A \<open>.theme-option\<close> element: its \<open>data-theme\<close> attribute and its class list.\<close>

record theme_option =
  dataTheme :: "string option"
  optionClassList :: "string list"

text \<open>
  The manager's field \<open>currentTheme\<close>, \<open>localStorage\<close>, and the parts of the document
  it touches. An element that \<open>querySelector\<close> or \<open>getElementById\<close> does not find
  is \<open>None\<close>. \<open>activeElement\<close> is the id of the focused element, \<open>mediaListener\<close>
  says whether the \<open>change\<close> listener of the colour-scheme media query is registered.
\<close>

record page =
  currentTheme :: string
  localStorage :: "string \<rightharpoonup> string"
  dataBsTheme :: "string option"
  highlightHref :: "string option"
  heroSvgSrc :: "string option"
  themeButton :: "theme_button option"
  themeOptions :: "theme_option list"
  activeElement :: "string option"
  mediaListener :: bool

definition getItem :: "page \<Rightarrow> string \<Rightarrow> string option" where
  "getItem s k = localStorage s k"

definition setItem :: "string \<Rightarrow> string \<Rightarrow> page \<Rightarrow> page" where
  "setItem k v s = s\<lparr>localStorage := (localStorage s)(k \<mapsto> v)\<rparr>"

subsection \<open>Applying a theme\<close>

text \<open>The \<open>switch\<close> of \<open>updateHeroSvg\<close> that computes \<open>svgPath\<close>.\<close>

definition svgPath :: "string \<Rightarrow> string" where
  "svgPath theme =
    (if theme = ''dark'' then ''/img/undraw_road_to_knowledge_dark.svg''
     else if theme = ''high-contrast'' then ''/img/undraw_road_to_knowledge_high_contrast.svg''
     else ''/img/undraw_road_to_knowledge_light.svg'')"

definition updateHeroSvg :: "string \<Rightarrow> page \<Rightarrow> page" where
  "updateHeroSvg theme s =
    (case heroSvgSrc s of
       None \<Rightarrow> s
     | Some _ \<Rightarrow> s\<lparr>heroSvgSrc := Some (svgPath theme)\<rparr>)"

definition lightTheme :: string where
  "lightTheme = ''https://cdnjs.cloudflare.com/ajax/libs/highlight.js/11.11.1/styles/github.min.css''"

definition darkTheme :: string where
  "darkTheme = ''https://cdnjs.cloudflare.com/ajax/libs/highlight.js/11.11.1/styles/github-dark.min.css''"

definition updateCodeTheme :: "string \<Rightarrow> page \<Rightarrow> page" where
  "updateCodeTheme theme s =
    (case highlightHref s of
       None \<Rightarrow> s
     | Some _ \<Rightarrow>
        s\<lparr>highlightHref := Some
          (if theme = ''dark'' \<or> theme = ''high-contrast'' then darkTheme else lightTheme)\<rparr>)"

definition applyTheme :: "string \<Rightarrow> page \<Rightarrow> page" where
  "applyTheme theme s =
    updateHeroSvg theme (updateCodeTheme theme (s\<lparr>dataBsTheme := Some theme\<rparr>))"

text \<open>
  \<open>updateThemeUI\<close>. Assigning \<open>undefined\<close> to \<open>textContent\<close> (a nullable string
  attribute) empties the text.
\<close>

definition updateButton :: "js_value \<Rightarrow> theme_button \<Rightarrow> theme_button" where
  "updateButton d b =
    b\<lparr>ariaLabel := Some (''Th'' @ [CHR 0xE8] @ ''me actuel : '' @ template_str (prop_label d)),
      iconClassName :=
        (case iconClassName b of
           None \<Rightarrow> None
         | Some _ \<Rightarrow> Some (''bi '' @ template_str (prop_icon d) @ '' me-1'')),
      currentThemeSpan :=
        (case currentThemeSpan b of
           None \<Rightarrow> None
         | Some _ \<Rightarrow> Some (case prop_label d of None \<Rightarrow> [] | Some l \<Rightarrow> l))\<rparr>"

definition toggleActive :: "string \<Rightarrow> theme_option \<Rightarrow> theme_option" where
  "toggleActive cur opt =
    opt\<lparr>optionClassList :=
      classList_toggle ''active'' (dataTheme opt = Some cur) (optionClassList opt)\<rparr>"

definition updateThemeUI :: "page \<Rightarrow> page" where
  "updateThemeUI s =
    (let s1 =
       (case (themeButton s, themes_get (currentTheme s)) of
          (Some b, Some d) \<Rightarrow> s\<lparr>themeButton := Some (updateButton d b)\<rparr>
        | _ \<Rightarrow> s)
     in s1\<lparr>themeOptions := map (toggleActive (currentTheme s1)) (themeOptions s1)\<rparr>)"

subsection \<open>Loading and switching\<close>

text \<open>
  The environment signal is \<open>window.matchMedia?.('(prefers-color-scheme: dark)')\<close>:
  \<open>None\<close> when \<open>window.matchMedia\<close> is not defined (the optional chain then gives
  \<open>undefined\<close> for the whole expression), \<open>Some m\<close> with \<open>m\<close> the value of
  \<open>.matches\<close> otherwise.
\<close>

definition prefersDark :: "bool option \<Rightarrow> bool" where
  "prefersDark env = (case env of None \<Rightarrow> False | Some m \<Rightarrow> m)"

definition loadTheme :: "bool option \<Rightarrow> page \<Rightarrow> page" where
  "loadTheme env s =
    (let savedTheme = getItem s ''preferred-theme'';
         fallback = (if prefersDark env then ''dark'' else ''light'');
         cur =
          (case savedTheme of
             None \<Rightarrow> fallback
           | Some t \<Rightarrow>
               if js_truthy savedTheme \<and> themes_get t \<noteq> None then t else fallback)
     in applyTheme cur (s\<lparr>currentTheme := cur\<rparr>))"

definition switchTheme :: "string \<Rightarrow> page \<Rightarrow> page" where
  "switchTheme theme s =
    (if themes_get theme = None then s
     else
       let s1 = s\<lparr>currentTheme := theme\<rparr>;
           s2 = applyTheme theme s1;
           s3 = setItem ''preferred-theme'' theme s2;
           s4 = updateThemeUI s3
       in (case themeButton s4 of
             None \<Rightarrow> s4
           | Some _ \<Rightarrow> s4\<lparr>activeElement := Some ''themeDropdown''\<rparr>))"

text \<open>The click listener of a \<open>.theme-option\<close>: \<open>dataset.theme\<close> is \<open>undefined\<close>
  without the attribute, and \<open>undefined\<close> as a property key is the string of that
  name.\<close>

definition themeOptionClick :: "theme_option \<Rightarrow> page \<Rightarrow> page" where
  "themeOptionClick opt s = switchTheme (template_str (dataTheme opt)) s"

text \<open>The body of the \<open>change\<close> listener, with \<open>e.matches\<close> as its argument.\<close>

definition onSystemThemeChange :: "bool \<Rightarrow> page \<Rightarrow> page" where
  "onSystemThemeChange matches s =
    (if \<not> js_truthy (getItem s ''preferred-theme'')
     then switchTheme (if matches then ''dark'' else ''light'') s
     else s)"

definition listenForSystemThemeChanges :: "bool option \<Rightarrow> page \<Rightarrow> page" where
  "listenForSystemThemeChanges env s =
    (case env of None \<Rightarrow> s | Some _ \<Rightarrow> s\<lparr>mediaListener := True\<rparr>)"

text \<open>A change notification of the media query reaches the listener only when it was
  registered.\<close>

definition mediaQueryChange :: "bool \<Rightarrow> page \<Rightarrow> page" where
  "mediaQueryChange matches s = (if mediaListener s then onSystemThemeChange matches s else s)"

text \<open>\<open>init\<close> of the theme manager; the click listeners that \<open>setupEventListeners\<close> registers are
  \<open>themeOptionClick\<close> above.\<close>

definition ThemeManager_init :: "bool option \<Rightarrow> page \<Rightarrow> page" where
  "ThemeManager_init env s = listenForSystemThemeChanges env (updateThemeUI (loadTheme env s))"

definition ThemeManager :: "bool option \<Rightarrow> page \<Rightarrow> page" where
  "ThemeManager env s = ThemeManager_init env (s\<lparr>currentTheme := ''light''\<rparr>)"


section \<open>\<open>class DynamicNavbarBreakpoint\<close>\<close>

subsection \<open>Numbers\<close>

text \<open>
  A JavaScript number is an IEEE 754 double: NaN, an infinity, or a finite value, here
  the rational it denotes. Both zeros are \<open>Num 0\<close>: they are equal under \<open>>\<close>
  and both falsy, and nothing in the modelled code divides.

  \<open>to_double\<close> is the rounding of every arithmetic result and every parsed literal:
  to the nearest double, ties to the even significand, with 53 bits above
  \<open>2 powi - 1022\<close>, multiples of \<open>2 powi - 1074\<close> below, and infinity once the rounded
  value reaches \<open>2 powi 1024\<close>. \<open>ilog2 a\<close> is the binary exponent of a positive \<open>a\<close>,
  the integer \<open>e\<close> with \<open>2 powi e \<le> a < 2 powi (e + 1)\<close>.
\<close>

datatype js_number = NaN | Num rat | PosInf | NegInf

definition ilog2 :: "rat \<Rightarrow> int" where
  "ilog2 a = (if 1 \<le> a then bitlen \<lfloor>a\<rfloor> - 1 else - bitlen (\<lceil>1 / a\<rceil> - 1))"

definition round_half_even :: "rat \<Rightarrow> int" where
  "round_half_even m =
    (let f = \<lfloor>m\<rfloor>; r = m - of_int f
     in if r < 1 / 2 then f else if 1 / 2 < r then f + 1 else if even f then f else f + 1)"

definition to_double :: "rat \<Rightarrow> js_number" where
  "to_double x =
    (if x = 0 then Num 0
     else
       let a = \<bar>x\<bar>;
           q = max (ilog2 a) (- 1022) - 52;
           v = of_int (round_half_even (a / 2 powi q)) * 2 powi q
       in if 2 powi 1024 \<le> v then (if 0 < x then PosInf else NegInf)
          else Num (if 0 < x then v else - v))"

text \<open>\<open>x + y\<close> and \<open>x * y\<close>: the exact result, rounded.\<close>

fun js_add :: "js_number \<Rightarrow> js_number \<Rightarrow> js_number" where
  "js_add (Num a) (Num b) = to_double (a + b)"
| "js_add NaN y = NaN"
| "js_add x NaN = NaN"
| "js_add PosInf NegInf = NaN"
| "js_add NegInf PosInf = NaN"
| "js_add PosInf y = PosInf"
| "js_add x PosInf = PosInf"
| "js_add NegInf y = NegInf"
| "js_add x NegInf = NegInf"

fun js_mul :: "js_number \<Rightarrow> js_number \<Rightarrow> js_number" where
  "js_mul (Num a) (Num b) = to_double (a * b)"
| "js_mul NaN y = NaN"
| "js_mul x NaN = NaN"
| "js_mul (Num a) PosInf = (if a = 0 then NaN else if 0 < a then PosInf else NegInf)"
| "js_mul (Num a) NegInf = (if a = 0 then NaN else if 0 < a then NegInf else PosInf)"
| "js_mul PosInf (Num b) = (if b = 0 then NaN else if 0 < b then PosInf else NegInf)"
| "js_mul NegInf (Num b) = (if b = 0 then NaN else if 0 < b then NegInf else PosInf)"
| "js_mul PosInf PosInf = PosInf"
| "js_mul NegInf NegInf = PosInf"
| "js_mul PosInf NegInf = NegInf"
| "js_mul NegInf PosInf = NegInf"

text \<open>\<open>x > y\<close>: false as soon as one side is NaN.\<close>

fun js_gt :: "js_number \<Rightarrow> js_number \<Rightarrow> bool" where
  "js_gt (Num a) (Num b) = (b < a)"
| "js_gt NaN y = False"
| "js_gt x NaN = False"
| "js_gt PosInf y = (y \<noteq> PosInf)"
| "js_gt x PosInf = False"
| "js_gt x NegInf = (x \<noteq> NegInf)"
| "js_gt NegInf y = False"

text \<open>\<open>x || d\<close> on numbers: NaN and zero are falsy.\<close>

definition js_or :: "js_number \<Rightarrow> js_number \<Rightarrow> js_number" where
  "js_or x d = (if x = NaN \<or> x = Num 0 then d else x)"

subsection \<open>\<open>parseFloat\<close>\<close>

text \<open>
  The built-in \<open>parseFloat\<close> (ECMAScript 19.2.4): leading white space is dropped, then
  the longest prefix that is a decimal literal is read: an optional sign, then
  \<open>Infinity\<close> or digits with an optional fraction and an optional exponent. Without
  such a prefix the result is NaN. What follows the literal (a unit such as \<open>px\<close>) is
  ignored. The result is the double nearest to the decimal value read.
\<close>

definition is_space :: "char \<Rightarrow> bool" where
  "is_space c = (c \<in> set [CHR 0x09, CHR 0x0A, CHR 0x0B, CHR 0x0C, CHR 0x0D, CHR 0x20, CHR 0xA0])"

definition is_digit :: "char \<Rightarrow> bool" where
  "is_digit c = (c \<in> set ''0123456789'')"

definition digit_val :: "char \<Rightarrow> nat" where
  "digit_val c = of_char c - 48"

definition digits_val :: "string \<Rightarrow> nat" where
  "digits_val ds = foldl (\<lambda>a c. 10 * a + digit_val c) 0 ds"

definition signed_integer :: "string \<Rightarrow> int option" where
  "signed_integer r =
    (let (sg, u) =
       (case r of
          [] \<Rightarrow> (1, r)
        | c # r' \<Rightarrow>
            if c = CHR ''+'' then (1, r') else if c = CHR ''-'' then (- 1, r') else (1, r));
         ds = takeWhile is_digit u
     in if ds = [] then None else Some (sg * int (digits_val ds)))"

definition exponent_part :: "string \<Rightarrow> int" where
  "exponent_part r =
    (case r of
       [] \<Rightarrow> 0
     | e # r' \<Rightarrow>
         if e = CHR ''e'' \<or> e = CHR ''E''
         then (case signed_integer r' of None \<Rightarrow> 0 | Some n \<Rightarrow> n)
         else 0)"

definition scale10 :: "rat \<Rightarrow> int \<Rightarrow> rat" where
  "scale10 m e = (if 0 \<le> e then m * 10 ^ nat e else m / 10 ^ nat (- e))"

definition parseFloat :: "string \<Rightarrow> js_number" where
  "parseFloat str =
    (let t = dropWhile is_space str;
         (neg, u) =
           (case t of
              [] \<Rightarrow> (False, t)
            | c # t' \<Rightarrow>
                if c = CHR ''+'' then (False, t')
                else if c = CHR ''-'' then (True, t')
                else (False, t))
     in if take 8 u = ''Infinity'' then (if neg then NegInf else PosInf)
        else
          let ip = takeWhile is_digit u;
              r1 = dropWhile is_digit u;
              (fp, r2) =
                (case r1 of
                   [] \<Rightarrow> ([], r1)
                 | d # r' \<Rightarrow>
                     if d = CHR ''.'' then (takeWhile is_digit r', dropWhile is_digit r')
                     else ([], r1))
          in if ip = [] \<and> fp = [] then NaN
             else
               let m = of_nat (digits_val (ip @ fp)) / 10 ^ length fp;
                   v = scale10 m (exponent_part r2)
               in to_double (if neg then - v else v))"

subsection \<open>The navbar, its layout and the engine\<close>

text \<open>
  What one run of \<open>checkBreakpoint\<close> reads from the rendered page: the
  \<open>offsetWidth\<close> of the brand, of the nav links and of the theme control, the computed
  \<open>gap\<close> of \<open>.navbar-collapse\<close> (\<open>None\<close> when the navbar has no such element) and
  the \<open>clientWidth\<close> of the container. The widths are of the DOM type \<open>long\<close>,
  integers between \<open>- 2 ^ 31\<close> and \<open>2 ^ 31 - 1\<close>, each exactly a double.
\<close>

record probe =
  brandOffsetWidth :: int
  navbarNavOffsetWidth :: int
  themeSelectorOffsetWidth :: int
  collapseGap :: "string option"
  containerClientWidth :: int

text \<open>The browser's layout: what a probe reads, given the classes on the navbar.\<close>

type_synonym layout = "string set \<Rightarrow> probe"

datatype js_error = TypeError

text \<open>
  The engine: the class list of \<open>this.navbar\<close>; whether the constructor's four
  \<open>querySelector\<close> calls found \<open>container\<close>, \<open>brand\<close>, \<open>navbarNav\<close> and
  \<open>themeSelector\<close>; the elements the \<open>ResizeObserver\<close> observes; whether the initial
  timer is pending; the console warnings; the number of \<open>bootstrap.Dropdown\<close> objects
  created. \<open>ResizeObserver\<close> and \<open>bootstrap\<close> are taken to be loaded.
\<close>

record engine =
  navbarClassList :: "string list"
  container :: bool
  brand :: bool
  navbarNav :: bool
  themeSelector :: bool
  observed :: "string list"
  timerPending :: bool
  warnings :: "string list"
  dropdowns :: nat

definition buffer :: js_number where
  "buffer = Num 5"

text \<open>\<open>gapStyle\<close> and \<open>gapWidth\<close> of \<open>checkBreakpoint\<close>.\<close>

definition gapStyle :: "probe \<Rightarrow> string" where
  "gapStyle p = (case collapseGap p of Some g \<Rightarrow> g | None \<Rightarrow> ''0px'')"

definition gapWidth :: "probe \<Rightarrow> js_number" where
  "gapWidth p = js_or (parseFloat (gapStyle p)) (Num 8)"

definition requiredWidth :: "probe \<Rightarrow> js_number" where
  "requiredWidth p =
    js_add
      (js_add
        (js_add (Num (of_int (brandOffsetWidth p))) (Num (of_int (navbarNavOffsetWidth p))))
        (Num (of_int (themeSelectorOffsetWidth p))))
      (js_mul (Num 2) (gapWidth p))"

text \<open>
  \<open>checkBreakpoint\<close>. Reading \<open>offsetWidth\<close> or \<open>clientWidth\<close> of an element that
  was not found throws a \<open>TypeError\<close>; the class added before stays. The result is the
  engine after the call and the error thrown, if any.
\<close>

definition checkBreakpoint :: "layout \<Rightarrow> engine \<Rightarrow> engine \<times> js_error option" where
  "checkBreakpoint L e =
    (let e1 = e\<lparr>navbarClassList := classList_add ''navbar-expand-lg'' (navbarClassList e)\<rparr>;
         p = L (set (navbarClassList e1))
     in if \<not> brand e1 \<or> \<not> navbarNav e1 \<or> \<not> themeSelector e1 \<or> \<not> container e1
        then (e1, Some TypeError)
        else
          let availableWidth = Num (of_int (containerClientWidth p));
              e2 =
               (if js_gt (js_add (requiredWidth p) buffer) availableWidth
                then e1\<lparr>navbarClassList :=
                        classList_remove ''navbar-expand-lg'' (navbarClassList e1)\<rparr>
                else e1\<lparr>navbarClassList :=
                        classList_add ''navbar-expand-lg'' (navbarClassList e1)\<rparr>)
          in (if themeSelector e2 then e2\<lparr>dropdowns := Suc (dropdowns e2)\<rparr> else e2, None))"

definition expanded :: "engine \<Rightarrow> bool" where
  "expanded e = (''navbar-expand-lg'' \<in> set (navbarClassList e))"

definition DynamicNavbarBreakpoint_init :: "engine \<Rightarrow> engine" where
  "DynamicNavbarBreakpoint_init e =
    (if \<not> container e \<or> \<not> brand e \<or> \<not> navbarNav e \<or> \<not> themeSelector e
     then e\<lparr>warnings := warnings e @
            [''DynamicNavbarBreakpoint: Missing required elements for measurement.'']\<rparr>
     else e\<lparr>observed := observed e @ [''container'', ''navbarNav''], timerPending := True\<rparr>)"

text \<open>The constructor, from the navbar's classes and the results of its four queries.\<close>

definition DynamicNavbarBreakpoint :: "string list \<Rightarrow> bool \<Rightarrow> bool \<Rightarrow> bool \<Rightarrow> bool \<Rightarrow> engine" where
  "DynamicNavbarBreakpoint cls c b n t =
    DynamicNavbarBreakpoint_init
      \<lparr>navbarClassList = cls, container = c, brand = b, navbarNav = n, themeSelector = t,
       observed = [], timerPending = False, warnings = [], dropdowns = 0\<rparr>"

text \<open>
  What can happen after construction: the observer reports a size change of an element,
  or the 150 ms timer fires. Each comes with the layout of that moment. The observer's
  callback runs only for an observed element, the timer's only when it was set.
\<close>

datatype event = Resize string | Timeout

definition notify :: "layout \<times> event \<Rightarrow> engine \<Rightarrow> engine" where
  "notify le e =
    (case snd le of
       Resize target \<Rightarrow>
         if target \<in> set (observed e) then fst (checkBreakpoint (fst le) e) else e
     | Timeout \<Rightarrow>
         if timerPending e then fst (checkBreakpoint (fst le) (e\<lparr>timerPending := False\<rparr>))
         else e)"

definition run :: "(layout \<times> event) list \<Rightarrow> engine \<Rightarrow> engine" where
  "run evs e = fold notify evs e"

section \<open>Example inputs\<close>

text \<open>A page as the site serves it: light theme, nothing stored.\<close>

definition example_page :: page where
  "example_page =
    \<lparr>currentTheme = ''light'',
     localStorage = Map.empty,
     dataBsTheme = Some ''light'',
     highlightHref = Some lightTheme,
     heroSvgSrc = Some ''/img/undraw_road_to_knowledge_light.svg'',
     themeButton =
       Some \<lparr>ariaLabel = None, iconClassName = Some ''bi bi-sun me-1'',
             currentThemeSpan = Some ''Light''\<rparr>,
     themeOptions =
       [\<lparr>dataTheme = Some ''light'', optionClassList = [''dropdown-item'', ''theme-option'']\<rparr>,
        \<lparr>dataTheme = Some ''dark'', optionClassList = [''dropdown-item'', ''theme-option'']\<rparr>,
        \<lparr>dataTheme = Some ''high-contrast'',
          optionClassList = [''dropdown-item'', ''theme-option'']\<rparr>],
     activeElement = None,
     mediaListener = False\<rparr>"

text \<open>The same page with a value stored under the preference key.\<close>

definition stored_page :: "string \<Rightarrow> page" where
  "stored_page v = example_page\<lparr>localStorage := [''preferred-theme'' \<mapsto> v]\<rparr>"

text \<open>The measurements of the specification's example, for a container width \<open>w\<close>
  and a computed gap \<open>g\<close>, whatever the classes.\<close>

definition example_layout :: "string option \<Rightarrow> int \<Rightarrow> layout" where
  "example_layout g w =
    (\<lambda>cls. \<lparr>brandOffsetWidth = 100, navbarNavOffsetWidth = 300,
            themeSelectorOffsetWidth = 150, collapseGap = g, containerClientWidth = w\<rparr>)"

definition example_navbar :: "string list" where
  "example_navbar = [''navbar'', ''navbar-expand-lg'', ''fixed-top'']"

text \<open>A layout in which the nav links measure nothing while the navbar is collapsed, and
  as in \<open>L\<close> while it is expanded.\<close>

definition narrow_when_collapsed :: "layout \<Rightarrow> layout" where
  "narrow_when_collapsed L =
    (\<lambda>cls. if ''navbar-expand-lg'' \<in> cls then L cls else (L cls)\<lparr>navbarNavOffsetWidth := 0\<rparr>)"

section \<open>Auxiliary definitions for the proofs\<close>

text \<open>The button that \<open>updateThemeUI\<close> leaves behind.\<close>

definition uiButton :: "page \<Rightarrow> theme_button option" where
  "uiButton s =
    (case (themeButton s, themes_get (currentTheme s)) of
       (Some b, Some d) \<Rightarrow> Some (updateButton d b)
     | _ \<Rightarrow> themeButton s)"

section \<open>The theme manager: basic facts\<close>

lemma themes_get_supported:
  "v \<in> set supported_variants \<Longrightarrow> themes_get v \<noteq> None"
  by (auto simp: supported_variants_def themes_get_def themes_def)

lemma themes_get_nonempty: "themes_get v \<noteq> None \<Longrightarrow> v \<noteq> []"
  by (auto simp: themes_get_def themes_def object_prototype_keys_def
      split: option.splits if_splits)

lemma themes_get_None_iff:
  "themes_get x = None \<longleftrightarrow> x \<notin> set supported_variants \<and> x \<notin> set object_prototype_keys"
  by (simp add: themes_get_def themes_def supported_variants_def split: option.splits)

lemma themes_get_constructor: "themes_get ''constructor'' \<noteq> None"
  by (simp add: themes_get_def themes_def object_prototype_keys_def)

lemma localStorage_applyTheme [simp]: "localStorage (applyTheme t s) = localStorage s"
  by (simp add: applyTheme_def updateHeroSvg_def updateCodeTheme_def split: option.splits)

lemma currentTheme_applyTheme [simp]: "currentTheme (applyTheme t s) = currentTheme s"
  by (simp add: applyTheme_def updateHeroSvg_def updateCodeTheme_def split: option.splits)

lemma dataBsTheme_applyTheme [simp]: "dataBsTheme (applyTheme t s) = Some t"
  by (simp add: applyTheme_def updateHeroSvg_def updateCodeTheme_def split: option.splits)

lemma themeButton_applyTheme [simp]: "themeButton (applyTheme t s) = themeButton s"
  by (simp add: applyTheme_def updateHeroSvg_def updateCodeTheme_def split: option.splits)

lemma themeOptions_applyTheme [simp]: "themeOptions (applyTheme t s) = themeOptions s"
  by (simp add: applyTheme_def updateHeroSvg_def updateCodeTheme_def split: option.splits)

lemma updateThemeUI_fields:
  "updateThemeUI s =
    s\<lparr>themeButton := uiButton s,
      themeOptions := map (toggleActive (currentTheme s)) (themeOptions s)\<rparr>"
  by (cases "themeButton s"; cases "themes_get (currentTheme s)")
     (simp_all add: updateThemeUI_def uiButton_def Let_def)

lemma localStorage_updateThemeUI [simp]: "localStorage (updateThemeUI s) = localStorage s"
  by (simp add: updateThemeUI_fields)

lemma currentTheme_updateThemeUI [simp]: "currentTheme (updateThemeUI s) = currentTheme s"
  by (simp add: updateThemeUI_fields)

lemma dataBsTheme_updateThemeUI [simp]: "dataBsTheme (updateThemeUI s) = dataBsTheme s"
  by (simp add: updateThemeUI_fields)

text \<open>A theme that passes the guard of \<open>switchTheme\<close> becomes current, is applied and is
  stored; one that does not changes nothing.\<close>

lemma switchTheme_undefined: "themes_get x = None \<Longrightarrow> switchTheme x s = s"
  by (simp add: switchTheme_def)

lemma getItem_switchTheme:
  "themes_get v \<noteq> None \<Longrightarrow> getItem (switchTheme v s) ''preferred-theme'' = Some v"
  by (auto simp: switchTheme_def getItem_def setItem_def Let_def split: option.splits)

lemma localStorage_switchTheme:
  "themes_get v \<noteq> None \<Longrightarrow>
   localStorage (switchTheme v s) = (localStorage s)(''preferred-theme'' \<mapsto> v)"
  by (auto simp: switchTheme_def setItem_def Let_def split: option.splits)

lemma currentTheme_switchTheme:
  "themes_get v \<noteq> None \<Longrightarrow> currentTheme (switchTheme v s) = v"
  by (auto simp: switchTheme_def setItem_def Let_def split: option.splits)

lemma dataBsTheme_switchTheme:
  "themes_get v \<noteq> None \<Longrightarrow> dataBsTheme (switchTheme v s) = Some v"
  by (auto simp: switchTheme_def setItem_def Let_def split: option.splits)

lemma currentTheme_loadTheme_saved:
  "getItem t ''preferred-theme'' = Some v \<Longrightarrow> themes_get v \<noteq> None \<Longrightarrow>
   currentTheme (loadTheme env t) = v"
  using themes_get_nonempty [of v]
  by (simp add: loadTheme_def Let_def js_truthy_def)

lemma dataBsTheme_loadTheme:
  "dataBsTheme (loadTheme env s) = Some (currentTheme (loadTheme env s))"
  by (simp add: loadTheme_def Let_def)

text \<open>What \<open>loadTheme\<close> makes current, for every stored value and every environment:
  a stored name is used when it is a supported variant or a name inherited from
  \<open>Object.prototype\<close>; otherwise the media query decides, and light is the result when
  it is not available.\<close>

lemma loadTheme_fallback_chain:
  "currentTheme (loadTheme env s) =
    (case getItem s ''preferred-theme'' of
       None \<Rightarrow> (case env of Some True \<Rightarrow> ''dark'' | _ \<Rightarrow> ''light'')
     | Some t \<Rightarrow>
         if t \<in> set supported_variants \<or> t \<in> set object_prototype_keys then t
         else (case env of Some True \<Rightarrow> ''dark'' | _ \<Rightarrow> ''light''))"
  using themes_get_None_iff themes_get_nonempty
  by (auto simp: loadTheme_def Let_def js_truthy_def prefersDark_def
      split: option.splits bool.splits)

lemma onSystemThemeChange_stored:
  "getItem s ''preferred-theme'' = Some p \<Longrightarrow> p \<noteq> [] \<Longrightarrow> onSystemThemeChange m s = s"
  by (simp add: onSystemThemeChange_def js_truthy_def)

lemma onSystemThemeChange_absent:
  "getItem s ''preferred-theme'' = None \<or> getItem s ''preferred-theme'' = Some [] \<Longrightarrow>
   onSystemThemeChange m s = switchTheme (if m then ''dark'' else ''light'') s"
  by (auto simp: onSystemThemeChange_def js_truthy_def)

lemma onSystemThemeChange_after_switchTheme:
  "themes_get v \<noteq> None \<Longrightarrow> onSystemThemeChange m (switchTheme v s) = switchTheme v s"
  using getItem_switchTheme [of v s] themes_get_nonempty [of v]
  by (simp add: onSystemThemeChange_stored)

lemma fold_onSystemThemeChange_stored:
  "getItem s ''preferred-theme'' = Some p \<Longrightarrow> p \<noteq> [] \<Longrightarrow>
   fold onSystemThemeChange ms s = s"
  by (induction ms) (simp_all add: onSystemThemeChange_stored)

text \<open>Without \<open>window.matchMedia\<close> no listener is registered, and a change of the
  system preference reaches nothing.\<close>

lemma no_matchMedia_no_listener:
  "\<not> mediaListener s \<Longrightarrow> mediaQueryChange m (listenForSystemThemeChanges None s) = s"
  by (simp add: listenForSystemThemeChanges_def mediaQueryChange_def)

subsection \<open>Idempotence of the two halves of \<open>applyCurrent\<close>\<close>








lemma uiButton_applyTheme [simp]: "uiButton (applyTheme t s) = uiButton s"
  by (simp add: uiButton_def split: option.splits)


section \<open>Doubles: basic facts\<close>

lemma ilog2_bounds:
  assumes "0 < a"
  shows "2 powi (ilog2 a) \<le> a \<and> a < 2 powi (ilog2 a + 1)"
proof (cases "1 \<le> a")
  case True
  define n where "n = \<lfloor>a\<rfloor>"
  have n: "0 < n" using True by (simp add: n_def)
  have b: "2 ^ nat (bitlen n - 1) \<le> n \<and> n < 2 ^ nat (bitlen n)"
    using n by (rule bitlen_bounds)
  have k: "1 \<le> bitlen n"
    using n bitlen_eq_zero_iff [of n] bitlen_nonneg [of n] by linarith
  have e: "ilog2 a = bitlen n - 1"
    using True by (simp add: ilog2_def n_def)
  have "(2::rat) powi (bitlen n - 1) = 2 ^ nat (bitlen n - 1)"
    using k by (simp add: power_int_def)
  also have "\<dots> = of_int (2 ^ nat (bitlen n - 1))" by simp
  also have "\<dots> \<le> of_int n" using b by (simp only: of_int_le_iff)
  also have "\<dots> \<le> a" by (simp add: n_def)
  finally have lo: "2 powi (ilog2 a) \<le> a" by (simp add: e)
  have "a < of_int (n + 1)"
    using floor_correct [of a] by (simp add: n_def)
  also have "\<dots> \<le> of_int (2 ^ nat (bitlen n))"
    using b by (simp only: of_int_le_iff) simp
  also have "\<dots> = (2::rat) powi (bitlen n)"
    using k by (simp add: power_int_def)
  finally have "a < 2 powi (ilog2 a + 1)" by (simp add: e)
  with lo show ?thesis ..
next
  case False
  define b where "b = 1 / a"
  define n where "n = \<lceil>b\<rceil> - 1"
  have b1: "1 < b" using False assms by (simp add: b_def)
  have n: "0 < n" using b1 by (simp add: n_def)
  have bb: "2 ^ nat (bitlen n - 1) \<le> n \<and> n < 2 ^ nat (bitlen n)"
    using n by (rule bitlen_bounds)
  have k: "1 \<le> bitlen n"
    using n bitlen_eq_zero_iff [of n] bitlen_nonneg [of n] by linarith
  have e: "ilog2 a = - bitlen n"
    using False by (simp add: ilog2_def n_def b_def)
  have nb: "of_int n < b" and bn: "b \<le> of_int (n + 1)"
    by (simp_all add: n_def) linarith+
  have "n + 1 \<le> 2 ^ nat (bitlen n)"
    using bb by simp
  then have "(of_int (n + 1) :: rat) \<le> of_int (2 ^ nat (bitlen n))"
    by (simp only: of_int_le_iff)
  then have "b \<le> of_int (2 ^ nat (bitlen n))"
    using bn by (rule order_trans [rotated])
  then have "b \<le> 2 ^ nat (bitlen n)" by simp
  then have "1 / 2 ^ nat (bitlen n) \<le> a"
    using assms by (simp add: b_def field_simps)
  moreover have "(2::rat) powi (- bitlen n) = 1 / 2 ^ nat (bitlen n)"
    using k by (simp add: power_int_def field_simps)
  ultimately have lo: "2 powi (ilog2 a) \<le> a" by (simp add: e)
  have "of_int (2 ^ nat (bitlen n - 1)) \<le> (of_int n :: rat)"
    using bb by (simp only: of_int_le_iff)
  then have "(2::rat) ^ nat (bitlen n - 1) \<le> of_int n"
    by (simp only: of_int_power of_int_numeral)
  then have "2 ^ nat (bitlen n - 1) < b" using nb by (rule order_le_less_trans)
  then have "a < 1 / 2 ^ nat (bitlen n - 1)"
    using assms by (simp add: b_def field_simps)
  moreover have "(2::rat) powi (- bitlen n + 1) = 1 / 2 ^ nat (bitlen n - 1)"
    using k by (simp add: power_int_def field_simps)
  ultimately have "a < 2 powi (ilog2 a + 1)" by (simp add: e)
  with lo show ?thesis ..
qed

lemma ilog2_unique:
  assumes "0 < a" and "2 powi e \<le> a" and "a < 2 powi (e + 1)"
  shows "ilog2 a = e"
proof -
  have b: "2 powi (ilog2 a) \<le> a" "a < 2 powi (ilog2 a + 1)"
    using ilog2_bounds [OF assms(1)] by simp_all
  have "(2::rat) powi e < 2 powi (ilog2 a + 1)"
    using assms(2) b(2) by simp
  then have 1: "e < ilog2 a + 1"
    using power_int_increasing [of "ilog2 a + 1" e "2::rat"]
    by (cases "e < ilog2 a + 1") simp_all
  have "(2::rat) powi (ilog2 a) < 2 powi (e + 1)"
    using assms(3) b(1) by simp
  then have 2: "ilog2 a < e + 1"
    using power_int_increasing [of "e + 1" "ilog2 a" "2::rat"]
    by (cases "ilog2 a < e + 1") simp_all
  from 1 2 show ?thesis by simp
qed

lemma round_half_even_of_int [simp]: "round_half_even (of_int j) = j"
  by (simp add: round_half_even_def)

lemma round_half_even_eqI:
  assumes "of_int n - 1 / 2 < m" and "m < of_int n + 1 / 2"
  shows "round_half_even m = n"
proof -
  have "\<lfloor>m\<rfloor> = n \<or> \<lfloor>m\<rfloor> = n - 1"
    using assms by linarith
  then show ?thesis
  proof
    assume f: "\<lfloor>m\<rfloor> = n"
    then have "m - of_int \<lfloor>m\<rfloor> < 1 / 2" using assms by simp
    then show ?thesis by (simp add: round_half_even_def Let_def f)
  next
    assume f: "\<lfloor>m\<rfloor> = n - 1"
    then have "1 / 2 < m - of_int \<lfloor>m\<rfloor>" using assms by simp
    then show ?thesis by (simp add: round_half_even_def Let_def f)
  qed
qed

lemma floor_le_round_half_even: "\<lfloor>m\<rfloor> \<le> round_half_even m"
  by (simp add: round_half_even_def Let_def)

text \<open>\<open>to_double\<close> of a positive value whose binary exponent is known.\<close>

lemma to_double_pos:
  assumes "0 < a" and "2 powi e \<le> a" and "a < 2 powi (e + 1)"
  shows "to_double a =
    (let q = max e (- 1022) - 52;
         v = of_int (round_half_even (a / 2 powi q)) * 2 powi q
     in if 2 powi 1024 \<le> v then PosInf else Num v)"
  using assms(1) ilog2_unique [OF assms] by (simp add: to_double_def Let_def)

lemma to_double_eqI:
  assumes "0 < a" and "2 powi e \<le> a" and "a < 2 powi (e + 1)"
    and "q = max e (- 1022) - 52"
    and "of_int n - 1 / 2 < a / 2 powi q" and "a / 2 powi q < of_int n + 1 / 2"
    and "of_int n * 2 powi q < (2::rat) powi 1024"
  shows "to_double a = Num (of_int n * 2 powi q)"
  using assms(4,7) round_half_even_eqI [OF assms(5,6)]
  by (simp add: to_double_pos [OF assms(1-3)] Let_def)

text \<open>No rounding where a significand of 53 bits is enough.\<close>

lemma to_double_exact:
  assumes x: "x = of_int i / 2 ^ k" and i: "\<bar>i\<bar> < 2 ^ 53" and k: "k \<le> 1074"
  shows "to_double x = Num x"
proof (cases "i = 0")
  case True
  then show ?thesis by (simp add: x to_double_def)
next
  case False
  define a where "a = \<bar>x\<bar>"
  define e where "e = ilog2 a"
  define q where "q = max e (- 1022) - 52"
  define d where "d = nat (- int k - q)"
  have a: "a = of_int \<bar>i\<bar> / 2 ^ k"
    by (simp add: a_def x)
  have a0: "0 < a" using False by (simp add: a)
  have b: "2 powi e \<le> a" "a < 2 powi (e + 1)"
    using ilog2_bounds [OF a0] by (simp_all add: e_def)
  have up: "a < 2 powi (53 - int k)"
  proof -
    have "(of_int \<bar>i\<bar> :: rat) < of_int (2 ^ 53)"
      using i by (simp only: of_int_less_iff)
    then have "(of_int \<bar>i\<bar> :: rat) < 2 ^ 53" by simp
    then have "a < 2 ^ 53 / 2 ^ k"
      by (simp add: a divide_strict_right_mono)
    also have "\<dots> = 2 powi (53 - int k)"
      by (simp add: power_int_diff)
    finally show ?thesis .
  qed
  have "(2::rat) powi e < 2 powi (53 - int k)"
    using b(1) up by simp
  then have "e < 53 - int k"
    using power_int_increasing [of "53 - int k" e "2::rat"]
    by (cases "e < 53 - int k") simp_all
  then have qk: "q \<le> - int k"
    using k by (simp add: q_def)
  then have dq: "int d = - int k - q"
    by (simp add: d_def)
  have "a / 2 powi q = of_int \<bar>i\<bar> * (2 powi (- int k) / 2 powi q)"
    by (simp add: a power_int_minus field_simps)
  also have "2 powi (- int k) / 2 powi q = (2::rat) powi (- int k - q)"
    by (simp add: power_int_diff)
  also have "\<dots> = 2 ^ d"
    using dq by (metis power_int_of_nat)
  finally have m: "a / 2 powi q = of_int (\<bar>i\<bar> * 2 ^ d)"
    by simp
  have "of_int (\<bar>i\<bar> * 2 ^ d) * 2 powi q = of_int \<bar>i\<bar> * ((2::rat) powi (int d) * 2 powi q)"
    by simp
  also have "(2::rat) powi (int d) * 2 powi q = 2 powi (int d + q)"
    by (simp add: power_int_add)
  also have "int d + q = - int k" using dq by simp
  also have "of_int \<bar>i\<bar> * (2::rat) powi (- int k) = a"
    by (simp add: a power_int_minus field_simps)
  finally have v: "of_int (round_half_even (a / 2 powi q)) * 2 powi q = a"
    by (simp only: m round_half_even_of_int)
  have "a < 2 powi 1024"
  proof -
    have "a < 2 powi (53 - int k)" by (rule up)
    also have "\<dots> \<le> 2 powi 1024"
      by (rule power_int_increasing) simp_all
    finally show ?thesis .
  qed
  then have nov: "\<not> 2 powi 1024 \<le> a" by simp
  have "x \<noteq> 0" using a0 by (auto simp: a_def)
  then show ?thesis
    using v nov
    by (simp add: to_double_def Let_def a_def [symmetric] e_def [symmetric] q_def [symmetric])
       (simp add: a_def)
qed

lemma to_double_of_int: "\<bar>i\<bar> < 2 ^ 53 \<Longrightarrow> to_double (of_int i) = Num (of_int i)"
  using to_double_exact [of "of_int i" i 0] by simp

lemma to_double_numeral:
  "(numeral w :: int) < 2 ^ 53 \<Longrightarrow> to_double (numeral w) = Num (numeral w)"
  using to_double_of_int [of "numeral w"] by simp

text \<open>Infinity from \<open>2 powi 1024\<close> on.\<close>

lemma to_double_overflow:
  assumes "2 powi 1024 \<le> a"
  shows "to_double a = PosInf"
proof -
  have a0: "0 < a"
    using assms zero_less_power_int [of "2::rat" 1024] by linarith
  define e where "e = ilog2 a"
  define q where "q = max e (- 1022) - 52"
  have b: "2 powi e \<le> a" "a < 2 powi (e + 1)"
    using ilog2_bounds [OF a0] by (simp_all add: e_def)
  have "(2::rat) powi 1024 < 2 powi (e + 1)"
    using assms b(2) by simp
  then have e: "1024 \<le> e"
    using power_int_increasing [of "e + 1" 1024 "2::rat"] by (cases "1024 \<le> e") simp_all
  then have q: "q = e - 52" by (simp add: q_def)
  have "(2::rat) ^ 52 = 2 powi e / 2 powi q"
    by (simp add: q power_int_diff [symmetric])
  also have "\<dots> \<le> a / 2 powi q"
    using b(1) by (simp add: divide_right_mono)
  finally have "of_int (2 ^ 52) \<le> a / 2 powi q" by simp
  then have "2 ^ 52 \<le> \<lfloor>a / 2 powi q\<rfloor>"
    by (simp only: le_floor_iff)
  then have "2 ^ 52 \<le> round_half_even (a / 2 powi q)"
    using floor_le_round_half_even [of "a / 2 powi q"] by linarith
  then have "(of_int (2 ^ 52) :: rat) \<le> of_int (round_half_even (a / 2 powi q))"
    by (simp only: of_int_le_iff)
  then have "(2::rat) ^ 52 * 2 powi q \<le> of_int (round_half_even (a / 2 powi q)) * 2 powi q"
    by (simp add: mult_right_mono)
  moreover have "(2::rat) ^ 52 * 2 powi q = 2 powi e"
    using power_int_add [of "2::rat" 52 q] by (simp add: q)
  moreover have "(2::rat) powi 1024 \<le> 2 powi e"
    using e by (intro power_int_increasing) simp_all
  ultimately have "(2::rat) powi 1024 \<le> of_int (round_half_even (a / 2 powi q)) * 2 powi q"
    by linarith
  then show ?thesis
    using a0 by (simp add: to_double_def Let_def e_def [symmetric] q_def [symmetric])
qed

lemma js_add_of_int:
  "\<bar>a + b\<bar> < 2 ^ 53 \<Longrightarrow> js_add (Num (of_int a)) (Num (of_int b)) = Num (of_int (a + b))"
  using to_double_of_int [of "a + b"] by simp


section \<open>The breakpoint engine: basic facts\<close>

lemma example_probe [simp]:
  "brandOffsetWidth (example_layout g w cls) = 100"
  "navbarNavOffsetWidth (example_layout g w cls) = 300"
  "themeSelectorOffsetWidth (example_layout g w cls) = 150"
  "collapseGap (example_layout g w cls) = g"
  "containerClientWidth (example_layout g w cls) = w"
  by (simp_all add: example_layout_def)

lemmas parseFloat_defs =
  parseFloat_def is_space_def is_digit_def digit_val_def digits_val_def scale10_def
  exponent_part_def signed_integer_def

lemma to_double_0 [simp]: "to_double 0 = Num 0"
  by (simp add: to_double_def)

lemma parseFloat_0px: "parseFloat ''0px'' = Num 0"
  by (simp add: parseFloat_defs)

lemma parseFloat_8px: "parseFloat ''8px'' = Num 8"
  by (simp add: parseFloat_defs to_double_numeral)

lemma parseFloat_normal: "parseFloat ''normal'' = NaN"
  by (simp add: parseFloat_defs)

lemma parseFloat_12_5px: "parseFloat ''12.5px'' = Num (25 / 2)"
  using to_double_exact [of "25 / 2" 25 1] by (simp add: parseFloat_defs)

lemma to_double_1em20: "to_double (1 / 10 ^ 20) = Num (6646139978924579 / 2 ^ 119)"
  using to_double_eqI [of "1 / 10 ^ 20" "- 67" "- 119" 6646139978924579] by simp

lemma parseFloat_1em20px: "parseFloat ''1e-20px'' = Num (6646139978924579 / 2 ^ 119)"
  using to_double_1em20 by (simp add: parseFloat_defs)

text \<open>Literals beyond the range of doubles: infinity above, zero below.\<close>

lemma parseFloat_1e400px: "parseFloat ''1e400px'' = PosInf"
  using to_double_overflow [of "10 ^ 400"] by (simp add: parseFloat_defs)

lemma parseFloat_1em400px: "parseFloat ''1e-400px'' = Num 0"
  using to_double_eqI [of "1 / 10 ^ 400" "- 1329" "- 1074" 0] by (simp add: parseFloat_defs)

text \<open>\<open>gapWidth\<close>: a gap that parses to a number other than zero is used as it is;
  NaN (as for the computed value \<open>normal\<close>) and a missing \<open>.navbar-collapse\<close> give
  the default.\<close>

lemma gapWidth_not_NaN: "gapWidth p \<noteq> NaN"
  by (simp add: gapWidth_def js_or_def)

lemma gapWidth_read:
  "collapseGap p = Some s \<Longrightarrow> parseFloat s = Num r \<Longrightarrow> r \<noteq> 0 \<Longrightarrow> gapWidth p = Num r"
  by (simp add: gapWidth_def gapStyle_def js_or_def)

lemma gapWidth_unreadable:
  "collapseGap p = Some s \<Longrightarrow> parseFloat s = NaN \<Longrightarrow> gapWidth p = Num 8"
  by (simp add: gapWidth_def gapStyle_def js_or_def)

lemma gapWidth_no_collapse: "collapseGap p = None \<Longrightarrow> gapWidth p = Num 8"
  by (simp add: gapWidth_def gapStyle_def js_or_def parseFloat_0px)

lemma gapWidth_example_8px: "gapWidth (example_layout (Some ''8px'') w cls) = Num 8"
  by (simp add: gapWidth_def gapStyle_def example_layout_def js_or_def parseFloat_8px)

lemma gapWidth_example_0px: "gapWidth (example_layout (Some ''0px'') w cls) = Num 8"
  by (simp add: gapWidth_def gapStyle_def example_layout_def js_or_def parseFloat_0px)

lemma dyadic_gap:
  assumes j: "g * 2 ^ 20 = rat_of_int j" and g: "0 < g" "g < 2 ^ 31"
  shows "0 < j" and "j < 2 ^ 51" and "2 * g = of_int j / 2 ^ 19"
proof -
  have "(0::rat) < g * 2 ^ 20" using g by simp
  then have "(0::rat) < of_int j" by (simp only: j)
  then show "0 < j" by (simp only: of_int_0_less_iff)
  have "g * 2 ^ 20 < 2 ^ 31 * 2 ^ 20" using g by simp
  then have "rat_of_int j < of_int (2 ^ 51)" by (simp only: j) simp
  then show "j < 2 ^ 51" by (simp only: of_int_less_iff)
  show "2 * g = of_int j / 2 ^ 19"
    using j by (simp add: field_simps)
qed

text \<open>The sums of \<open>checkBreakpoint\<close> are exact for widths in the range of a
  \<open>long\<close> and a gap below \<open>2 ^ 31\<close> that is a multiple of \<open>1 / 2 ^ 20\<close>.\<close>

lemma requiredWidth_exact:
  assumes b: "0 \<le> brandOffsetWidth p" "brandOffsetWidth p < 2 ^ 31"
    and n: "0 \<le> navbarNavOffsetWidth p" "navbarNavOffsetWidth p < 2 ^ 31"
    and t: "0 \<le> themeSelectorOffsetWidth p" "themeSelectorOffsetWidth p < 2 ^ 31"
    and g: "gapWidth p = Num g" "0 < g" "g < 2 ^ 31" "g * 2 ^ 20 \<in> \<int>"
  shows "requiredWidth p =
      Num (of_int (brandOffsetWidth p) + of_int (navbarNavOffsetWidth p)
           + of_int (themeSelectorOffsetWidth p) + 2 * g)"
    and "js_add (requiredWidth p) buffer =
      Num (of_int (brandOffsetWidth p) + of_int (navbarNavOffsetWidth p)
           + of_int (themeSelectorOffsetWidth p) + 2 * g + 5)"
proof -
  define W where "W = brandOffsetWidth p + navbarNavOffsetWidth p + themeSelectorOffsetWidth p"
  obtain j where j: "g * 2 ^ 20 = of_int j"
    using g(4) by (rule Ints_cases)
  note j0 = dyadic_gap(1) [OF j g(2,3)] and j1 = dyadic_gap(2) [OF j g(2,3)]
    and g2 = dyadic_gap(3) [OF j g(2,3)]
  have W0: "0 \<le> W" and W1: "W < 3 * 2 ^ 31"
    using b n t by (simp_all add: W_def)
  have m: "js_mul (Num 2) (Num g) = Num (2 * g)"
    using to_double_exact [OF g2] j0 j1 by simp
  have s1: "js_add (Num (of_int (brandOffsetWidth p))) (Num (of_int (navbarNavOffsetWidth p)))
      = Num (of_int (brandOffsetWidth p + navbarNavOffsetWidth p))"
    using b n by (intro js_add_of_int) simp
  have s2: "js_add (Num (of_int (brandOffsetWidth p + navbarNavOffsetWidth p)))
        (Num (of_int (themeSelectorOffsetWidth p))) = Num (of_int W)"
    unfolding W_def using b n t by (intro js_add_of_int) simp
  have e3: "of_int W + 2 * g = (of_int (W * 2 ^ 19 + j) :: rat) / 2 ^ 19"
    by (simp add: g2 add_divide_distrib)
  have s3: "to_double (of_int W + 2 * g) = Num (of_int W + 2 * g)"
    using W0 W1 j0 j1 by (intro to_double_exact [OF e3]) simp_all
  have e4: "of_int W + 2 * g + 5 = (of_int ((W + 5) * 2 ^ 19 + j) :: rat) / 2 ^ 19"
    by (simp add: g2 add_divide_distrib)
  have s4: "to_double (of_int W + 2 * g + 5) = Num (of_int W + 2 * g + 5)"
    using W0 W1 j0 j1 by (intro to_double_exact [OF e4]) simp_all
  have r: "requiredWidth p = Num (of_int W + 2 * g)"
    by (simp add: requiredWidth_def g(1) m s1 s2 s3 del: js_add.simps js_mul.simps of_int_add)
       (simp add: s3)
  show "requiredWidth p =
      Num (of_int (brandOffsetWidth p) + of_int (navbarNavOffsetWidth p)
           + of_int (themeSelectorOffsetWidth p) + 2 * g)"
    using r by (simp add: W_def)
  show "js_add (requiredWidth p) buffer =
      Num (of_int (brandOffsetWidth p) + of_int (navbarNavOffsetWidth p)
           + of_int (themeSelectorOffsetWidth p) + 2 * g + 5)"
    using s4 by (simp add: r buffer_def) (simp add: W_def)
qed

lemma set_classList_add [simp]: "set (classList_add c cs) = insert c (set cs)"
  by (auto simp: classList_add_def)

lemma set_classList_remove [simp]: "set (classList_remove c cs) = set cs - {c}"
  by (auto simp: classList_remove_def)

lemma requiredWidth_example:
  "gapWidth (example_layout g w cls) = Num 8 \<Longrightarrow>
   requiredWidth (example_layout g w cls) = Num 566"
  by (simp add: requiredWidth_def to_double_numeral)

lemma checkBreakpoint_found:
  assumes "container e" "brand e" "navbarNav e" "themeSelector e"
  shows "snd (checkBreakpoint L e) = None"
    and "expanded (fst (checkBreakpoint L e)) \<longleftrightarrow>
      \<not> js_gt (js_add (requiredWidth (L (insert ''navbar-expand-lg'' (set (navbarClassList e)))))
                 buffer)
              (Num (of_int (containerClientWidth
                 (L (insert ''navbar-expand-lg'' (set (navbarClassList e)))))))"
  using assms by (simp_all add: checkBreakpoint_def Let_def expanded_def)

lemma checkBreakpoint_missing:
  assumes "\<not> (container e \<and> brand e \<and> navbarNav e \<and> themeSelector e)"
  shows "checkBreakpoint L e =
    (e\<lparr>navbarClassList := classList_add ''navbar-expand-lg'' (navbarClassList e)\<rparr>,
     Some TypeError)"
  using assms by (auto simp: checkBreakpoint_def Let_def)

lemma example_engine_found:
  "container (DynamicNavbarBreakpoint cls True True True True)"
  "brand (DynamicNavbarBreakpoint cls True True True True)"
  "navbarNav (DynamicNavbarBreakpoint cls True True True True)"
  "themeSelector (DynamicNavbarBreakpoint cls True True True True)"
  by (simp_all add: DynamicNavbarBreakpoint_def DynamicNavbarBreakpoint_init_def)

lemma example_engine_classes:
  "navbarClassList (DynamicNavbarBreakpoint cls c b n t) = cls"
  by (simp add: DynamicNavbarBreakpoint_def DynamicNavbarBreakpoint_init_def)

lemma notify_disabled:
  "observed e = [] \<Longrightarrow> \<not> timerPending e \<Longrightarrow> notify le e = e"
  by (simp add: notify_def split: event.splits)

lemma run_disabled:
  "observed e = [] \<Longrightarrow> \<not> timerPending e \<Longrightarrow> run evs e = e"
  by (induction evs) (simp_all add: run_def notify_disabled)

lemma enabled_engine_reacts:
  "navbarClassList
     (run [(example_layout (Some ''8px'') 560, Resize ''container'')]
        (DynamicNavbarBreakpoint example_navbar True True True True))
   = [''navbar'', ''fixed-top'']"
  by (simp add: run_def notify_def DynamicNavbarBreakpoint_def DynamicNavbarBreakpoint_init_def
      checkBreakpoint_def Let_def requiredWidth_example gapWidth_example_8px buffer_def
      to_double_numeral classList_add_def classList_remove_def example_navbar_def)

section \<open>The claims\<close>

text \<open>
  Claim C1 says that \<open>checkBreakpoint\<close> computes
  \<open>requiredWidth = brandWidth + navWidth + themeControlWidth + 2 * gapWidth\<close> and
  leaves the navbar expanded exactly when \<open>requiredWidth + 5 \<le> containerWidth\<close>, for
  every tuple of non-negative pixel values. The sums are sums of doubles: with widths 100,
  300 and 150 and a computed gap of \<open>1e-20px\<close>, the gap is read as a positive number,
  \<open>requiredWidth\<close> is 550, less than the sum with twice the gap, and in a container of
  555 the navbar is expanded although that sum plus 5 is more than 555.
\<close>

theorem checkBreakpoint_rounding_counterexample:
  "parseFloat ''1e-20px'' = Num (6646139978924579 / 2 ^ 119)
   \<and> gapWidth (example_layout (Some ''1e-20px'') 555 (set example_navbar))
       = Num (6646139978924579 / 2 ^ 119)
   \<and> requiredWidth (example_layout (Some ''1e-20px'') 555 (set example_navbar)) = Num 550
   \<and> (550::rat) < 100 + 300 + 150 + 2 * (6646139978924579 / 2 ^ 119)
   \<and> \<not> (100 + 300 + 150 + 2 * (6646139978924579 / 2 ^ 119) + 5 \<le> (555::rat))
   \<and> expanded (fst (checkBreakpoint (example_layout (Some ''1e-20px'') 555)
        (DynamicNavbarBreakpoint example_navbar True True True True)))"
proof -
  let ?g = "6646139978924579 / 2 ^ 119 :: rat"
  let ?p = "example_layout (Some ''1e-20px'') 555 (set example_navbar)"
  let ?e = "DynamicNavbarBreakpoint example_navbar True True True True"
  have cls: "insert ''navbar-expand-lg'' (set (navbarClassList ?e)) = set example_navbar"
    by (auto simp: example_engine_classes example_navbar_def)
  have g: "gapWidth ?p = Num ?g"
    by (simp add: gapWidth_def gapStyle_def js_or_def parseFloat_1em20px)
  have m: "to_double (2 * ?g) = Num (2 * ?g)"
    using to_double_exact [of "2 * ?g" 6646139978924579 118] by simp
  have s: "to_double (550 + 2 * ?g) = Num 550"
    using to_double_eqI [of "550 + 2 * ?g" 9 "- 43" "550 * 2 ^ 43"] by simp
  have r: "requiredWidth ?p = Num 550"
    using m s by (simp add: requiredWidth_def g to_double_numeral)
  have "expanded (fst (checkBreakpoint (example_layout (Some ''1e-20px'') 555) ?e))"
    by (simp add: checkBreakpoint_found(2) [OF example_engine_found] cls r buffer_def
        to_double_numeral)
  then show ?thesis
    using parseFloat_1em20px g r by simp
qed

text \<open>
  Claim C1 as amended. The four elements are found, \<open>p\<close> is the probe the call reads,
  its three widths are non-negative (and below \<open>2 ^ 31\<close>, as every \<open>long\<close> is), and
  \<open>g\<close> is the gap: the positive number that \<open>parseFloat\<close> reads from the computed
  gap, or 8 when there is no \<open>.navbar-collapse\<close> or its gap does not parse. If \<open>g\<close> is
  below \<open>2 ^ 31\<close> and a multiple of \<open>1 / 2 ^ 20\<close>, so that no sum is rounded, then
  \<open>gapWidth\<close> is \<open>g\<close>, \<open>requiredWidth\<close> is the sum of the three widths and twice
  \<open>g\<close>, and the navbar is left expanded exactly when \<open>requiredWidth + 5\<close> is at most
  the container's width. A gap that is read as zero is not covered.
\<close>

theorem checkBreakpoint_decision:
  assumes "container e" and "brand e" and "navbarNav e" and "themeSelector e"
    and "p = L (insert ''navbar-expand-lg'' (set (navbarClassList e)))"
    and "0 \<le> brandOffsetWidth p" and "brandOffsetWidth p < 2 ^ 31"
    and "0 \<le> navbarNavOffsetWidth p" and "navbarNavOffsetWidth p < 2 ^ 31"
    and "0 \<le> themeSelectorOffsetWidth p" and "themeSelectorOffsetWidth p < 2 ^ 31"
    and "(collapseGap p = Some s \<and> parseFloat s = Num g)
       \<or> (g = 8 \<and> (collapseGap p = None \<or> (collapseGap p = Some s \<and> parseFloat s = NaN)))"
    and "0 < g" and "g < 2 ^ 31" and "g * 2 ^ 20 \<in> \<int>"
  shows "gapWidth p = Num g
    \<and> requiredWidth p =
      Num (of_int (brandOffsetWidth p) + of_int (navbarNavOffsetWidth p)
           + of_int (themeSelectorOffsetWidth p) + 2 * g)
    \<and> snd (checkBreakpoint L e) = None
    \<and> (expanded (fst (checkBreakpoint L e)) \<longleftrightarrow>
         of_int (brandOffsetWidth p) + of_int (navbarNavOffsetWidth p)
           + of_int (themeSelectorOffsetWidth p) + 2 * g + 5
         \<le> of_int (containerClientWidth p))"
proof -
  have g: "gapWidth p = Num g"
    using assms(12,13) gapWidth_read [of p s g] gapWidth_unreadable [of p s]
      gapWidth_no_collapse [of p]
    by auto
  note r = requiredWidth_exact [OF assms(6-11) g assms(13-15)]
  have "expanded (fst (checkBreakpoint L e)) \<longleftrightarrow>
      \<not> js_gt (js_add (requiredWidth p) buffer) (Num (of_int (containerClientWidth p)))"
    using checkBreakpoint_found(2) [OF assms(1-4), of L] assms(5) by simp
  then have "expanded (fst (checkBreakpoint L e)) \<longleftrightarrow>
         of_int (brandOffsetWidth p) + of_int (navbarNavOffsetWidth p)
           + of_int (themeSelectorOffsetWidth p) + 2 * g + 5
         \<le> of_int (containerClientWidth p)"
    by (simp only: r(2) js_gt.simps not_less)
  then show ?thesis
    using g r(1) checkBreakpoint_found(1) [OF assms(1-4), of L] by blast
qed

text \<open>The examples of the specification (gap 8: 566 needed, expanded at 600, collapsed
  at 560), a gap of 12.5 at the boundary (575 needed: expanded at 580, collapsed at 579),
  and the default gap for the computed value \<open>normal\<close> and for a navbar without
  \<open>.navbar-collapse\<close> (expanded at 571, collapsed at 570).\<close>

theorem checkBreakpoint_decision_witness:
  "requiredWidth (example_layout (Some ''8px'') 600 (set example_navbar)) = Num 566
   \<and> expanded (fst (checkBreakpoint (example_layout (Some ''8px'') 600)
        (DynamicNavbarBreakpoint example_navbar True True True True)))
   \<and> \<not> expanded (fst (checkBreakpoint (example_layout (Some ''8px'') 560)
        (DynamicNavbarBreakpoint example_navbar True True True True)))
   \<and> requiredWidth (example_layout (Some ''12.5px'') 580 (set example_navbar)) = Num 575
   \<and> expanded (fst (checkBreakpoint (example_layout (Some ''12.5px'') 580)
        (DynamicNavbarBreakpoint example_navbar True True True True)))
   \<and> \<not> expanded (fst (checkBreakpoint (example_layout (Some ''12.5px'') 579)
        (DynamicNavbarBreakpoint example_navbar True True True True)))
   \<and> expanded (fst (checkBreakpoint (example_layout (Some ''normal'') 571)
        (DynamicNavbarBreakpoint example_navbar True True True True)))
   \<and> \<not> expanded (fst (checkBreakpoint (example_layout None 570)
        (DynamicNavbarBreakpoint example_navbar True True True True)))"
proof -
  let ?e = "DynamicNavbarBreakpoint example_navbar True True True True"
  have cls: "insert ''navbar-expand-lg'' (set (navbarClassList ?e)) = set example_navbar"
    by (auto simp: example_engine_classes example_navbar_def)
  have i8: "(8::rat) * 2 ^ 20 \<in> \<int>" and i12: "(25 / 2 :: rat) * 2 ^ 20 \<in> \<int>"
    by simp_all
  have g8: "(collapseGap (example_layout (Some ''8px'') w (set example_navbar)) = Some ''8px''
        \<and> parseFloat ''8px'' = Num 8)
      \<or> (8 = (8::rat) \<and> (collapseGap (example_layout (Some ''8px'') w (set example_navbar)) = None
        \<or> (collapseGap (example_layout (Some ''8px'') w (set example_navbar)) = Some ''8px''
          \<and> parseFloat ''8px'' = NaN)))" for w
    by (simp add: parseFloat_8px)
  have g12: "(collapseGap (example_layout (Some ''12.5px'') w (set example_navbar))
          = Some ''12.5px'' \<and> parseFloat ''12.5px'' = Num (25 / 2))
      \<or> (25 / 2 = (8::rat) \<and> (collapseGap (example_layout (Some ''12.5px'') w (set example_navbar))
          = None
        \<or> (collapseGap (example_layout (Some ''12.5px'') w (set example_navbar)) = Some ''12.5px''
          \<and> parseFloat ''12.5px'' = NaN)))" for w
    by (simp add: parseFloat_12_5px)
  have gn: "(collapseGap (example_layout (Some ''normal'') w (set example_navbar))
          = Some ''normal'' \<and> parseFloat ''normal'' = Num 8)
      \<or> (8 = (8::rat) \<and> (collapseGap (example_layout (Some ''normal'') w (set example_navbar))
          = None
        \<or> (collapseGap (example_layout (Some ''normal'') w (set example_navbar)) = Some ''normal''
          \<and> parseFloat ''normal'' = NaN)))" for w
    by (simp add: parseFloat_normal)
  have g0: "(collapseGap (example_layout None w (set example_navbar)) = Some []
          \<and> parseFloat [] = Num 8)
      \<or> (8 = (8::rat) \<and> (collapseGap (example_layout None w (set example_navbar)) = None
        \<or> (collapseGap (example_layout None w (set example_navbar)) = Some []
          \<and> parseFloat [] = NaN)))" for w
    by simp
  note a = checkBreakpoint_decision [where e = ?e and g = 8 and s = "''8px''"
      and L = "example_layout (Some ''8px'') 600", OF example_engine_found, unfolded cls,
      OF refl _ _ _ _ _ _ g8 _ _ i8]
  note b = checkBreakpoint_decision [where e = ?e and g = 8 and s = "''8px''"
      and L = "example_layout (Some ''8px'') 560", OF example_engine_found, unfolded cls,
      OF refl _ _ _ _ _ _ g8 _ _ i8]
  note c = checkBreakpoint_decision [where e = ?e and g = "25 / 2" and s = "''12.5px''"
      and L = "example_layout (Some ''12.5px'') 580", OF example_engine_found, unfolded cls,
      OF refl _ _ _ _ _ _ g12 _ _ i12]
  note d = checkBreakpoint_decision [where e = ?e and g = "25 / 2" and s = "''12.5px''"
      and L = "example_layout (Some ''12.5px'') 579", OF example_engine_found, unfolded cls,
      OF refl _ _ _ _ _ _ g12 _ _ i12]
  note n = checkBreakpoint_decision [where e = ?e and g = 8 and s = "''normal''"
      and L = "example_layout (Some ''normal'') 571", OF example_engine_found, unfolded cls,
      OF refl _ _ _ _ _ _ gn _ _ i8]
  note m = checkBreakpoint_decision [where e = ?e and g = 8 and s = "[]"
      and L = "example_layout None 570", OF example_engine_found, unfolded cls,
      OF refl _ _ _ _ _ _ g0 _ _ i8]
  have 1: "requiredWidth (example_layout (Some ''8px'') 600 (set example_navbar)) = Num 566"
    and 2: "expanded (fst (checkBreakpoint (example_layout (Some ''8px'') 600) ?e))"
    using a by simp_all
  have 3: "\<not> expanded (fst (checkBreakpoint (example_layout (Some ''8px'') 560) ?e))"
    using b by simp
  have 4: "requiredWidth (example_layout (Some ''12.5px'') 580 (set example_navbar)) = Num 575"
    and 5: "expanded (fst (checkBreakpoint (example_layout (Some ''12.5px'') 580) ?e))"
    using c by simp_all
  have 6: "\<not> expanded (fst (checkBreakpoint (example_layout (Some ''12.5px'') 579) ?e))"
    using d by simp
  have 7: "expanded (fst (checkBreakpoint (example_layout (Some ''normal'') 571) ?e))"
    using n by simp
  have 8: "\<not> expanded (fst (checkBreakpoint (example_layout None 570) ?e))"
    using m by simp
  show ?thesis using 1 2 3 4 5 6 7 8 by blast
qed

text \<open>
  Claim C2. For a supported variant \<open>v\<close>, \<open>switchTheme v\<close> makes \<open>v\<close> current, and
  \<open>loadTheme\<close> on any page with the store that \<open>switchTheme v\<close> left (a reload) makes
  \<open>v\<close> current again, whatever the environment signal.
\<close>

theorem switchTheme_then_loadTheme:
  assumes "v \<in> set supported_variants"
    and "localStorage t = localStorage (switchTheme v s)"
  shows "currentTheme (switchTheme v s) = v \<and> currentTheme (loadTheme env t) = v"
proof -
  have ok: "themes_get v \<noteq> None"
    using assms(1) by (rule themes_get_supported)
  have "getItem t ''preferred-theme'' = Some v"
    using getItem_switchTheme [OF ok, of s] assms(2) by (simp add: getItem_def)
  then have "currentTheme (loadTheme env t) = v"
    using ok by (rule currentTheme_loadTheme_saved)
  then show ?thesis
    using currentTheme_switchTheme [OF ok] by simp
qed

theorem switchTheme_then_loadTheme_witness:
  "''high-contrast'' \<in> set supported_variants
   \<and> localStorage (stored_page ''high-contrast'')
       = localStorage (switchTheme ''high-contrast'' example_page)
   \<and> currentTheme (switchTheme ''high-contrast'' example_page) = ''high-contrast''
   \<and> currentTheme (loadTheme (Some True) (stored_page ''high-contrast'')) = ''high-contrast''"
proof -
  have v: "''high-contrast'' \<in> set supported_variants"
    by (simp add: supported_variants_def)
  have st: "localStorage (stored_page ''high-contrast'')
      = localStorage (switchTheme ''high-contrast'' example_page)"
    using localStorage_switchTheme [OF themes_get_supported [OF v], of example_page]
    by (simp add: stored_page_def example_page_def)
  show ?thesis
    using v st switchTheme_then_loadTheme [OF v st, of "Some True"] by simp
qed

text \<open>
  Claim C3 says that \<open>switchTheme x\<close> changes nothing for every \<open>x\<close> outside the three
  variants. The guard \<open>!this.themes[theme]\<close> also lets through the names that the
  \<open>themes\<close> object inherits: \<open>switchTheme('constructor')\<close> on the example page makes
  \<open>constructor\<close> the current theme, writes it to \<open>data-bs-theme\<close> and stores it.
  (For every other \<open>x\<close> outside the variants nothing changes:
  \<open>switchTheme_undefined\<close> with \<open>themes_get_None_iff\<close>.)
\<close>

theorem switchTheme_inherited_key:
  "''constructor'' \<notin> set supported_variants
   \<and> currentTheme example_page = ''light''
   \<and> currentTheme (switchTheme ''constructor'' example_page) = ''constructor''
   \<and> dataBsTheme (switchTheme ''constructor'' example_page) = Some ''constructor''
   \<and> getItem example_page ''preferred-theme'' = None
   \<and> getItem (switchTheme ''constructor'' example_page) ''preferred-theme''
       = Some ''constructor''"
  using currentTheme_switchTheme [OF themes_get_constructor, of example_page]
    getItem_switchTheme [OF themes_get_constructor, of example_page]
    dataBsTheme_switchTheme [OF themes_get_constructor, of example_page]
  by (simp add: supported_variants_def example_page_def getItem_def)

text \<open>
  Claim C4 says that \<open>loadTheme\<close> treats a stored value outside the three variants as
  absent. With \<open>constructor\<close> stored and a dark environment signal, \<open>loadTheme\<close>
  makes \<open>constructor\<close> current instead of \<open>dark\<close>: the same guard on
  \<open>this.themes[savedTheme]\<close>. (\<open>loadTheme_fallback_chain\<close> gives the result for every
  store and environment.)
\<close>

theorem loadTheme_inherited_key:
  "''constructor'' \<notin> set supported_variants
   \<and> getItem (stored_page ''constructor'') ''preferred-theme'' = Some ''constructor''
   \<and> currentTheme (loadTheme (Some True) (stored_page ''constructor'')) = ''constructor''
   \<and> dataBsTheme (loadTheme (Some True) (stored_page ''constructor'')) = Some ''constructor''"
proof -
  have g: "getItem (stored_page ''constructor'') ''preferred-theme'' = Some ''constructor''"
    by (simp add: getItem_def stored_page_def)
  show ?thesis
    using currentTheme_loadTheme_saved [OF g themes_get_constructor, of "Some True"] g
    by (simp add: supported_variants_def dataBsTheme_loadTheme)
qed

text \<open>
  Claim C5 says that a change notification behaves as \<open>switchTheme\<close> of dark or light
  when no persisted preference exists. A stored value that is no theme is no preference:
  \<open>loadTheme\<close> checks \<open>this.themes[savedTheme]\<close> and falls back to the environment
  signal. The listener checks only that something is stored. With \<open>blue\<close> stored and
  the theme light, \<open>loadTheme\<close> under a dark signal gives dark, and a notification that
  the system went dark changes nothing, where \<open>switchTheme\<close> of dark would have made
  dark current.
\<close>

theorem onSystemThemeChange_unvalidated_store:
  "''blue'' \<notin> set supported_variants
   \<and> themes_get ''blue'' = None
   \<and> getItem (stored_page ''blue'') ''preferred-theme'' = Some ''blue''
   \<and> currentTheme (loadTheme (Some True) (stored_page ''blue'')) = ''dark''
   \<and> currentTheme (stored_page ''blue'') = ''light''
   \<and> onSystemThemeChange True (stored_page ''blue'') = stored_page ''blue''
   \<and> currentTheme (switchTheme ''dark'' (stored_page ''blue'')) = ''dark''"
proof -
  have b: "''blue'' \<notin> set supported_variants" "themes_get ''blue'' = None"
    by (simp_all add: supported_variants_def themes_get_def themes_def object_prototype_keys_def)
  have g: "getItem (stored_page ''blue'') ''preferred-theme'' = Some ''blue''"
    by (simp add: getItem_def stored_page_def)
  have l: "currentTheme (loadTheme (Some True) (stored_page ''blue'')) = ''dark''"
    using g b(2) by (simp add: loadTheme_def Let_def prefersDark_def)
  have c: "currentTheme (stored_page ''blue'') = ''light''"
    by (simp add: stored_page_def example_page_def)
  have o: "onSystemThemeChange True (stored_page ''blue'') = stored_page ''blue''"
    using g by (simp add: onSystemThemeChange_stored)
  have d: "themes_get ''dark'' \<noteq> None"
    by (simp add: themes_get_def themes_def)
  show ?thesis
    using b g l c o currentTheme_switchTheme [OF d, of "stored_page ''blue''"] by blast
qed

text \<open>
  Claim C6. When one of the four elements is not found, the constructor registers no
  observer and no timer and logs one warning; every later sequence of resize and timer
  notifications leaves the engine, and so the class list of the navbar, as it was.
\<close>

theorem missing_element_disables_engine:
  assumes "\<not> c \<or> \<not> b \<or> \<not> n \<or> \<not> t"
  shows "observed (DynamicNavbarBreakpoint cls c b n t) = []
    \<and> \<not> timerPending (DynamicNavbarBreakpoint cls c b n t)
    \<and> warnings (DynamicNavbarBreakpoint cls c b n t)
        = [''DynamicNavbarBreakpoint: Missing required elements for measurement.'']
    \<and> run evs (DynamicNavbarBreakpoint cls c b n t) = DynamicNavbarBreakpoint cls c b n t
    \<and> navbarClassList (run evs (DynamicNavbarBreakpoint cls c b n t)) = cls"
proof -
  let ?e = "DynamicNavbarBreakpoint cls c b n t"
  have o: "observed ?e = []" and p: "\<not> timerPending ?e"
    and w: "warnings ?e = [''DynamicNavbarBreakpoint: Missing required elements for measurement.'']"
    and k: "navbarClassList ?e = cls"
    using assms by (auto simp: DynamicNavbarBreakpoint_def DynamicNavbarBreakpoint_init_def)
  have "run evs ?e = ?e"
    using o p by (rule run_disabled)
  then show ?thesis
    using o p w k by simp
qed

theorem missing_element_disables_engine_witness:
  "observed (DynamicNavbarBreakpoint example_navbar True False True True) = []
   \<and> navbarClassList
        (run [(example_layout (Some ''8px'') 560, Resize ''container''),
              (example_layout (Some ''8px'') 560, Timeout),
              (example_layout (Some ''8px'') 400, Resize ''navbarNav'')]
          (DynamicNavbarBreakpoint example_navbar True False True True))
       = example_navbar"
proof -
  have h: "\<not> True \<or> \<not> False \<or> \<not> True \<or> \<not> True"
    by simp
  show ?thesis
    using missing_element_disables_engine [OF h, of example_navbar
        "[(example_layout (Some ''8px'') 560, Resize ''container''),
          (example_layout (Some ''8px'') 560, Timeout),
          (example_layout (Some ''8px'') 400, Resize ''navbarNav'')]"]
    by blast
qed

text \<open>
  Claim C7. \<open>checkBreakpoint\<close> adds the class \<open>navbar-expand-lg\<close> and then measures:
  the layout is read at the class list after the addition, which contains the class.
  With the four elements found, the navbar is left expanded exactly when the widths
  read there fit. With an element missing, the first read of a width throws and the
  class has already been added. Whether the class was there before the call makes no
  difference to the state the call leaves.
\<close>

theorem checkBreakpoint_measures_expanded:
  "''navbar-expand-lg'' \<in> set (classList_add ''navbar-expand-lg'' (navbarClassList e))
   \<and> (container e \<and> brand e \<and> navbarNav e \<and> themeSelector e \<longrightarrow>
        snd (checkBreakpoint L e) = None
        \<and> (expanded (fst (checkBreakpoint L e)) \<longleftrightarrow>
            \<not> js_gt
               (js_add
                 (requiredWidth
                   (L (set (classList_add ''navbar-expand-lg'' (navbarClassList e)))))
                 buffer)
               (Num (of_int (containerClientWidth
                   (L (set (classList_add ''navbar-expand-lg'' (navbarClassList e)))))))))
   \<and> (\<not> (container e \<and> brand e \<and> navbarNav e \<and> themeSelector e) \<longrightarrow>
        checkBreakpoint L e =
          (e\<lparr>navbarClassList := classList_add ''navbar-expand-lg'' (navbarClassList e)\<rparr>,
           Some TypeError))
   \<and> expanded (fst (checkBreakpoint L
          (e\<lparr>navbarClassList := classList_remove ''navbar-expand-lg'' (navbarClassList e)\<rparr>)))
       = expanded (fst (checkBreakpoint L e))"
proof -
  have 1: "''navbar-expand-lg'' \<in> set (classList_add ''navbar-expand-lg'' (navbarClassList e))"
    by simp
  have 2: "container e \<and> brand e \<and> navbarNav e \<and> themeSelector e \<longrightarrow>
        snd (checkBreakpoint L e) = None
        \<and> (expanded (fst (checkBreakpoint L e)) \<longleftrightarrow>
            \<not> js_gt
               (js_add
                 (requiredWidth
                   (L (set (classList_add ''navbar-expand-lg'' (navbarClassList e)))))
                 buffer)
               (Num (of_int (containerClientWidth
                   (L (set (classList_add ''navbar-expand-lg'' (navbarClassList e))))))))"
    using checkBreakpoint_found [of e L] by simp
  have 3: "\<not> (container e \<and> brand e \<and> navbarNav e \<and> themeSelector e) \<longrightarrow>
        checkBreakpoint L e =
          (e\<lparr>navbarClassList := classList_add ''navbar-expand-lg'' (navbarClassList e)\<rparr>,
           Some TypeError)"
    using checkBreakpoint_missing [of e L] by blast
  have 4: "expanded (fst (checkBreakpoint L
          (e\<lparr>navbarClassList := classList_remove ''navbar-expand-lg'' (navbarClassList e)\<rparr>)))
       = expanded (fst (checkBreakpoint L e))"
    by (simp add: checkBreakpoint_def Let_def expanded_def)
  show ?thesis
    using 1 2 3 4 by blast
qed

text \<open>A collapsed navbar whose nav links measure nothing while it is collapsed: in a
  container of 560 it stays collapsed, because the 300 of the expanded layout are
  measured (571 needed), and in one of 600 it is expanded again. With the brand
  missing, the call throws with the class added.\<close>

theorem checkBreakpoint_measures_expanded_witness:
  "\<not> expanded (DynamicNavbarBreakpoint [''navbar'', ''fixed-top''] True True True True)
   \<and> navbarNavOffsetWidth
        (narrow_when_collapsed (example_layout (Some ''8px'') 560) {''navbar'', ''fixed-top''})
       = 0
   \<and> \<not> expanded (fst (checkBreakpoint
        (narrow_when_collapsed (example_layout (Some ''8px'') 560))
        (DynamicNavbarBreakpoint [''navbar'', ''fixed-top''] True True True True)))
   \<and> expanded (fst (checkBreakpoint
        (narrow_when_collapsed (example_layout (Some ''8px'') 600))
        (DynamicNavbarBreakpoint [''navbar'', ''fixed-top''] True True True True)))
   \<and> expanded (fst (checkBreakpoint
        (narrow_when_collapsed (example_layout (Some ''8px'') 600))
        (DynamicNavbarBreakpoint [''navbar'', ''fixed-top''] True False True True)))
   \<and> snd (checkBreakpoint
        (narrow_when_collapsed (example_layout (Some ''8px'') 600))
        (DynamicNavbarBreakpoint [''navbar'', ''fixed-top''] True False True True))
       = Some TypeError"
proof -
  let ?e = "DynamicNavbarBreakpoint [''navbar'', ''fixed-top''] True True True True"
  let ?f = "DynamicNavbarBreakpoint [''navbar'', ''fixed-top''] True False True True"
  have r: "requiredWidth (narrow_when_collapsed (example_layout (Some ''8px'') w)
        (insert ''navbar-expand-lg'' cls)) = Num 566" for w cls
    by (simp add: narrow_when_collapsed_def requiredWidth_example gapWidth_example_8px)
  have c: "containerClientWidth (narrow_when_collapsed (example_layout (Some ''8px'') w)
        (insert ''navbar-expand-lg'' cls)) = w" for w cls
    by (simp add: narrow_when_collapsed_def)
  have f: "\<not> (container ?f \<and> brand ?f \<and> navbarNav ?f \<and> themeSelector ?f)"
    by (simp add: DynamicNavbarBreakpoint_def DynamicNavbarBreakpoint_init_def)
  note a = checkBreakpoint_measures_expanded
      [of ?e "narrow_when_collapsed (example_layout (Some ''8px'') 560)"]
  note b = checkBreakpoint_measures_expanded
      [of ?e "narrow_when_collapsed (example_layout (Some ''8px'') 600)"]
  note d = checkBreakpoint_measures_expanded
      [of ?f "narrow_when_collapsed (example_layout (Some ''8px'') 600)"]
  have 0: "\<not> expanded ?e"
    by (simp add: expanded_def example_engine_classes)
  have 1: "navbarNavOffsetWidth
        (narrow_when_collapsed (example_layout (Some ''8px'') 560) {''navbar'', ''fixed-top''})
       = 0"
    by (simp add: narrow_when_collapsed_def)
  have 2: "\<not> expanded (fst (checkBreakpoint
        (narrow_when_collapsed (example_layout (Some ''8px'') 560)) ?e))"
    using a example_engine_found [of "[''navbar'', ''fixed-top'']"]
    by (simp add: r c buffer_def to_double_numeral)
  have 3: "expanded (fst (checkBreakpoint
        (narrow_when_collapsed (example_layout (Some ''8px'') 600)) ?e))"
    using b example_engine_found [of "[''navbar'', ''fixed-top'']"]
    by (simp add: r c buffer_def to_double_numeral)
  have 4: "checkBreakpoint (narrow_when_collapsed (example_layout (Some ''8px'') 600)) ?f
      = (?f\<lparr>navbarClassList := classList_add ''navbar-expand-lg'' (navbarClassList ?f)\<rparr>,
         Some TypeError)"
    using d f by blast
  have 5: "expanded (fst (checkBreakpoint
        (narrow_when_collapsed (example_layout (Some ''8px'') 600)) ?f))"
    by (simp add: 4 expanded_def)
  have 6: "snd (checkBreakpoint
        (narrow_when_collapsed (example_layout (Some ''8px'') 600)) ?f) = Some TypeError"
    by (simp add: 4)
  show ?thesis
    using 0 1 2 3 5 6 by blast
qed

text \<open>
  Claim C8 says that \<open>gapWidth\<close> is the gap read from the layout, and the default 8 only
  when the gap cannot be read. \<open>parseFloat(gapStyle) || 8\<close> also replaces a gap of zero:
  with a computed gap of \<open>0px\<close> the gap is read as 0 and \<open>gapWidth\<close> is 8. In a
  container of 560 the example widths fit with the gap of 0 that was read
  (\<open>550 + 5 \<le> 560\<close>), and the navbar is collapsed.
\<close>

theorem gapWidth_zero_gap_defaulted:
  "gapStyle (example_layout (Some ''0px'') 560 (set example_navbar)) = ''0px''
   \<and> parseFloat ''0px'' = Num 0
   \<and> gapWidth (example_layout (Some ''0px'') 560 (set example_navbar)) = Num 8
   \<and> requiredWidth (example_layout (Some ''0px'') 560 (set example_navbar)) = Num 566
   \<and> \<not> expanded (fst (checkBreakpoint (example_layout (Some ''0px'') 560)
        (DynamicNavbarBreakpoint example_navbar True True True True)))"
proof -
  let ?e = "DynamicNavbarBreakpoint example_navbar True True True True"
  let ?p = "example_layout (Some ''0px'') 560 (set example_navbar)"
  have 1: "gapStyle ?p = ''0px''"
    by (simp add: gapStyle_def)
  have 2: "requiredWidth ?p = Num 566"
    by (simp add: requiredWidth_example gapWidth_example_0px)
  have "\<not> expanded (fst (checkBreakpoint (example_layout (Some ''0px'') 560) ?e))"
    using example_engine_found [of example_navbar]
    by (simp add: checkBreakpoint_found(2) requiredWidth_example gapWidth_example_0px buffer_def
        to_double_numeral)
  then show ?thesis
    using 1 2 parseFloat_0px gapWidth_example_0px by blast
qed

theorem gapWidth_zero_gap_defaulted_witness:
  "parseFloat (gapStyle (example_layout (Some ''0px'') 560 (set example_navbar)))
     \<noteq> gapWidth (example_layout (Some ''0px'') 560 (set example_navbar))"
  using gapWidth_zero_gap_defaulted by simp



text \<open>
  Claim C10. A change notification that finds nothing stored runs \<open>switchTheme\<close> with
  dark or light, which stores that variant; every later sequence of change
  notifications then leaves the state as it is, with that variant current.
\<close>

theorem first_system_change_persists:
  assumes "getItem s ''preferred-theme'' = None"
  shows "onSystemThemeChange m s = switchTheme (if m then ''dark'' else ''light'') s
    \<and> getItem (onSystemThemeChange m s) ''preferred-theme''
        = Some (if m then ''dark'' else ''light'')
    \<and> fold onSystemThemeChange ms (onSystemThemeChange m s) = onSystemThemeChange m s
    \<and> currentTheme (fold onSystemThemeChange ms (onSystemThemeChange m s))
        = (if m then ''dark'' else ''light'')"
proof -
  let ?v = "if m then ''dark'' else ''light''"
  have ok: "themes_get ?v \<noteq> None"
    by (simp add: themes_get_def themes_def)
  have sw: "onSystemThemeChange m s = switchTheme ?v s"
    using assms by (simp add: onSystemThemeChange_absent)
  have st: "getItem (switchTheme ?v s) ''preferred-theme'' = Some ?v"
    using ok by (rule getItem_switchTheme)
  have "?v \<noteq> []" by simp
  with st have "fold onSystemThemeChange ms (switchTheme ?v s) = switchTheme ?v s"
    by (rule fold_onSystemThemeChange_stored)
  then show ?thesis
    using sw st currentTheme_switchTheme [OF ok, of s] by simp
qed

theorem first_system_change_persists_witness:
  "getItem example_page ''preferred-theme'' = None
   \<and> getItem (onSystemThemeChange True example_page) ''preferred-theme'' = Some ''dark''
   \<and> currentTheme (fold onSystemThemeChange [False, True, False]
        (onSystemThemeChange True example_page)) = ''dark''"
proof -
  have a: "getItem example_page ''preferred-theme'' = None"
    by (simp add: getItem_def example_page_def)
  note t = first_system_change_persists [OF a, of True "[False, True, False]"]
  have 1: "getItem (onSystemThemeChange True example_page) ''preferred-theme''
      = Some (if True then ''dark'' else ''light'')"
    using t by blast
  have 2: "currentTheme (fold onSystemThemeChange [False, True, False]
        (onSystemThemeChange True example_page)) = (if True then ''dark'' else ''light'')"
    using t by blast
  show ?thesis
    using a 1 2 by (simp only: if_True simp_thms)
qed

end
